theory Spec2Isabelle
  imports Main
begin

section \<open>JavaScript values and thrown errors\<close>

text \<open>
  The code is TypeScript: its tests \<open>if (error)\<close>, \<open>if (bytecode)\<close> and \<open>!!x\<close> are
  JavaScript truthiness tests, and a missing optional field reads as \<open>undefined\<close>.
  A value of static type \<open>any\<close> is one of the following; objects carry a payload
  of the type the code gives them. Numbers are the integers (no NaN, no fractions).
\<close>

datatype 'o js_value =
    JUndefined
  | JNull
  | JBool bool
  | JNum int
  | JStr string
  | JObj 'o

fun truthy :: "'o js_value \<Rightarrow> bool" where
  "truthy JUndefined = False"
| "truthy JNull = False"
| "truthy (JBool b) = b"
| "truthy (JNum n) = (n \<noteq> 0)"
| "truthy (JStr s) = (s \<noteq> [])"
| "truthy (JObj x) = True"

text \<open>What a \<open>throw\<close> (or a rejected promise) carries.\<close>

datatype thrown =
    Error string
  | EvtTimeoutError nat
  | BigNumberError string
  | TypeError string

section \<open>Result (modules/types/src/error.ts)\<close>

text \<open>
  \<open>class Result<T, Y = any>\<close> with its private fields \<open>value?\<close> and \<open>error?\<close>
  (an unset field is \<open>undefined\<close>) and the public flag \<open>isError\<close>.
\<close>

record ('t, 'y) Result =
  res_value :: "'t js_value"
  res_error :: "'y js_value"
  isError :: bool

text \<open>The private constructor: it tests the error for truthiness.\<close>

definition Result_new :: "'y js_value \<Rightarrow> 't js_value \<Rightarrow> ('t, 'y) Result" where
  "Result_new err val =
     (if truthy err
      then \<lparr>res_value = JUndefined, res_error = err, isError = True\<rparr>
      else \<lparr>res_value = val, res_error = JUndefined, isError = False\<rparr>)"

text \<open>
  \<open>getValue\<close> throws on an error result. The thrown message ends with the error
  converted to a string, which the model leaves out.
\<close>

definition getValue :: "('t, 'y) Result \<Rightarrow> thrown + 't js_value" where
  "getValue r =
     (if isError r then Inl (Error ''Can't getValue() of error result'')
      else Inr (res_value r))"

definition getError :: "('t, 'y) Result \<Rightarrow> 'y js_value" where
  "getError r = (if isError r then res_error r else JUndefined)"

definition Result_fail :: "'y js_value \<Rightarrow> ('t, 'y) Result" where
  "Result_fail err = Result_new err JUndefined"

definition Result_ok :: "'t js_value \<Rightarrow> ('t, 'y) Result" where
  "Result_ok result = Result_new JUndefined result"


section \<open>Decimal strings and BigNumber\<close>

text \<open>
  ethers' \<open>BigNumber\<close> is an integer of arbitrary size: \<open>int\<close>, with \<open>add\<close>,
  \<open>sub\<close> and \<open>gt\<close> the operations of \<open>int\<close>. Amounts travel as decimal strings;
  \<open>BigNumber.from\<close> reads one and throws on a string that is not a number, and
  \<open>toString\<close> writes one. Of the spellings \<open>BigNumber.from\<close> accepts only the
  decimal one is modelled (a hexadecimal string counts as invalid here). A
  JavaScript \<open>number\<close> that holds a nonce is an integer; the library converts
  between \<open>number\<close> and \<open>BigNumber\<close> only within the range of safe integers and
  throws outside it.
\<close>

definition digit_char :: "nat \<Rightarrow> char" where
  "digit_char d = ''0123456789'' ! d"

definition digit_val :: "char \<Rightarrow> nat option" where
  "digit_val c =
     map_of [(CHR ''0'', 0), (CHR ''1'', 1), (CHR ''2'', 2), (CHR ''3'', 3), (CHR ''4'', 4),
             (CHR ''5'', 5), (CHR ''6'', 6), (CHR ''7'', 7), (CHR ''8'', 8), (CHR ''9'', 9)] c"

function string_of_nat :: "nat \<Rightarrow> string" where
  "string_of_nat n =
     (if n < 10 then [digit_char n]
      else string_of_nat (n div 10) @ [digit_char (n mod 10)])"
  by pat_completeness auto
termination
  by (relation "measure id") auto

declare string_of_nat.simps [simp del]

fun parse_digits :: "nat \<Rightarrow> string \<Rightarrow> nat option" where
  "parse_digits acc [] = Some acc"
| "parse_digits acc (c # cs) =
     (case digit_val c of
        None \<Rightarrow> None
      | Some d \<Rightarrow> parse_digits (10 * acc + d) cs)"

definition parse_nat :: "string \<Rightarrow> nat option" where
  "parse_nat s = (if s = [] then None else parse_digits 0 s)"

text \<open>\<open>BigNumber.prototype.toString\<close>: the decimal string of the integer.\<close>

definition BigNumber_toString :: "int \<Rightarrow> string" where
  "BigNumber_toString n =
     (if n < 0 then CHR ''-'' # string_of_nat (nat (- n)) else string_of_nat (nat n))"

text \<open>\<open>BigNumber.from\<close> on a string matching \<open>-?[0-9]+\<close>; anything else throws.\<close>

definition BigNumber_from_string :: "string \<Rightarrow> thrown + int" where
  "BigNumber_from_string s =
     (case s of
        [] \<Rightarrow> Inl (BigNumberError ''invalid BigNumber string'')
      | c # cs \<Rightarrow>
          if c = CHR ''-''
          then (case parse_nat cs of
                  None \<Rightarrow> Inl (BigNumberError ''invalid BigNumber string'')
                | Some m \<Rightarrow> Inr (- int m))
          else (case parse_nat s of
                  None \<Rightarrow> Inl (BigNumberError ''invalid BigNumber string'')
                | Some m \<Rightarrow> Inr (int m)))"

text \<open>
  \<open>BigNumber.from(value)\<close> on any value: a BigNumber object is returned as it is,
  a number is converted when it lies strictly between \<open>-MAX_SAFE\<close> and
  \<open>MAX_SAFE\<close> (\<open>0x1fffffffffffff\<close>), a numeric string is read, and everything else
  throws.
\<close>

definition MAX_SAFE :: int where
  "MAX_SAFE = 2 ^ 53 - 1"

fun BigNumber_from :: "int js_value \<Rightarrow> thrown + int" where
  "BigNumber_from (JObj n) = Inr n"
| "BigNumber_from (JNum n) =
     (if n \<ge> MAX_SAFE \<or> n \<le> - MAX_SAFE then Inl (BigNumberError ''overflow'') else Inr n)"
| "BigNumber_from (JStr s) = BigNumber_from_string s"
| "BigNumber_from v = Inl (BigNumberError ''invalid BigNumber value'')"

text \<open>
  \<open>BigNumber.prototype.toNumber\<close>: the number, when the integer fits in 53 bits;
  it throws otherwise.
\<close>

definition BigNumber_toNumber :: "int \<Rightarrow> thrown + int" where
  "BigNumber_toNumber n =
     (if \<bar>n\<bar> < 2 ^ 53 then Inr n else Inl (BigNumberError ''overflow''))"

text \<open>\<open>xs[i]\<close> on a string array: \<open>undefined\<close> out of range.\<close>

definition index_str :: "string list \<Rightarrow> nat \<Rightarrow> int js_value" where
  "index_str xs i = (if i < length xs then JStr (xs ! i) else JUndefined)"

text \<open>Truthiness of an optional string: \<open>undefined\<close> and the empty string are falsy.\<close>

fun truthy_str :: "string option \<Rightarrow> bool" where
  "truthy_str None = False"
| "truthy_str (Some s) = (s \<noteq> [])"

text \<open>\<open>Array.prototype.findIndex\<close>: the first index that passes, or -1.\<close>

primrec findIndex :: "('a \<Rightarrow> bool) \<Rightarrow> 'a list \<Rightarrow> int" where
  "findIndex P [] = - 1"
| "findIndex P (x # xs) =
     (if P x then 0
      else (let r = findIndex P xs in if r < 0 then - 1 else r + 1))"

section \<open>Channel data\<close>

text \<open>
  Modelled from the spec: the declarations of \<open>Balance\<close>, \<open>ChannelUpdate\<close>,
  \<open>CoreChannelState\<close>, \<open>FullChannelState\<close>, \<open>ChannelCommitmentData\<close>,
  \<open>FullTransferState\<close> and \<open>InboundChannelUpdateError\<close> live in
  \<open>@connext/vector-types\<close> (channel.ts), which is not among the sources; the records
  below carry the fields the spec's data model lists, under the names the code
  reads them by. A signature slot is an optional string (\<open>undefined\<close> or empty when
  nobody signed it).
\<close>

record Balance =
  to :: "string list"
  amount :: "string list"

record NetworkContext =
  chainId :: int
  adjudicatorAddress :: string

datatype UpdateType = SETUP | DEPOSIT | CREATE | RESOLVE

datatype UpdateDetails =
    SetupDetails int NetworkContext
  | DepositDetails int
  | CreateDetails string string string "string list" int
  | ResolveDetails string string

record ChannelUpdate =
  upd_type :: UpdateType
  upd_channelAddress :: string
  fromIdentifier :: string
  toIdentifier :: string
  upd_nonce :: int
  upd_balance :: Balance
  upd_assetId :: string
  upd_details :: UpdateDetails
  upd_signatures :: "string option list"

record CoreChannelState =
  channelAddress :: string
  participants :: "string list"
  timeout :: int
  balances :: "Balance list"
  lockedBalance :: "string list"
  assetIds :: "string list"
  nonce :: int
  latestDepositNonce :: int
  merkleRoot :: string

text \<open>
  What \<open>const { publicIdentifiers, networkContext, ...core } = state\<close> leaves in
  \<open>core\<close>: every field of the full state but those two, so the core fields and
  \<open>latestUpdate\<close>.
\<close>

record RestChannelState = CoreChannelState +
  latestUpdate :: "ChannelUpdate option"

record FullChannelState = RestChannelState +
  publicIdentifiers :: "string list"
  networkContext :: NetworkContext

definition rest_of :: "FullChannelState \<Rightarrow> RestChannelState" where
  "rest_of s =
     \<lparr>channelAddress = channelAddress s, participants = participants s,
      timeout = timeout s, balances = balances s, lockedBalance = lockedBalance s,
      assetIds = assetIds s, nonce = nonce s,
      latestDepositNonce = latestDepositNonce s, merkleRoot = merkleRoot s,
      latestUpdate = latestUpdate s\<rparr>"

record ChannelCommitmentData =
  commit_chainId :: int
  commit_state :: RestChannelState
  commit_adjudicatorAddress :: string
  commit_signatures :: "string option list"

text \<open>
  \<open>IChannelSigner\<close>: its address and \<open>signMessage\<close>, which returns the signature
  of a digest.
\<close>

record IChannelSigner =
  address :: string
  signMessage :: "string \<Rightarrow> string"

record FullTransferState =
  transferId :: string
  transferDefinition :: string
  transferEncodings :: "string list"
  transferState :: string
  transferResolver :: string
  transferTimeout :: int

record InboundChannelUpdateError =
  err_message :: string
  err_context :: string

section \<open>Signing and validating commitments (protocol utilities)\<close>

text \<open>
  \<open>hashChannelCommitment\<close> and \<open>recoverAddressFromChannelMessage\<close> come from
  \<open>@connext/vector-utils\<close>, which is not among the sources: both functions below
  take them as parameters (\<open>hashCC\<close>, \<open>recover\<close>). The spec gives them the
  types \<open>hash_commitment(commitment) -> digest\<close> and
  \<open>recover_signer(digest, signature) -> address\<close>; the recovery is awaited and may
  throw (on a malformed signature), so it returns an address or what it throws.

  Each function returns, next to its result, the calls it made to its
  collaborator: the digests handed to \<open>signer.signMessage\<close>, and the (digest,
  signature) pairs handed to \<open>recoverAddressFromChannelMessage\<close>.
\<close>

definition generateSignedChannelCommitment ::
  "(ChannelCommitmentData \<Rightarrow> string) \<Rightarrow> FullChannelState \<Rightarrow> IChannelSigner
     \<Rightarrow> string option list \<Rightarrow> ChannelCommitmentData \<times> string list" where
  "generateSignedChannelCommitment hashCC newState signer updateSignatures =
     (let unsigned = (\<lambda>sigs.
            \<lparr>commit_chainId = chainId (networkContext newState),
             commit_state = rest_of newState,
             commit_adjudicatorAddress = adjudicatorAddress (networkContext newState),
             commit_signatures = sigs\<rparr>);
          filteredSigs = filter truthy_str updateSignatures
      in if length filteredSigs = 2
         then (unsigned updateSignatures, [])
         else
           (let counterpartySignature =
                  (case filteredSigs of [] \<Rightarrow> None | x # _ \<Rightarrow> x);
                digest = hashCC (unsigned []);
                sig = signMessage signer digest;
                idx = findIndex (\<lambda>p. p = address signer) (participants newState)
            in (unsigned (if idx = 0
                          then [Some sig, counterpartySignature]
                          else [counterpartySignature, Some sig]),
                [digest])))"

text \<open>
  \<open>await Promise.all(promises)\<close>: the results in order, or, when a promise
  rejects, that rejection thrown (the first one in the array's order here).
\<close>

fun awaitAll :: "(thrown + 'a) list \<Rightarrow> thrown + 'a list" where
  "awaitAll [] = Inr []"
| "awaitAll (x # xs) =
     (case x of
        Inl e \<Rightarrow> Inl e
      | Inr v \<Rightarrow> (case awaitAll xs of Inl e \<Rightarrow> Inl e | Inr vs \<Rightarrow> Inr (v # vs)))"

text \<open>
  One slot of \<open>updateSignatures.map(async (sigToVerify, idx) => ...)\<close>:
  \<open>undefined\<close> for an empty slot; otherwise the recovery is awaited, with no
  \<open>catch\<close>, so what it throws rejects the slot's promise; when it returns, the
  slot gives the signature if the recovered address is \<open>participants[idx]\<close>
  (\<open>undefined\<close> out of range, which equals no address) and \<open>undefined\<close> if not.
\<close>

definition verifySlot ::
  "(string \<Rightarrow> string \<Rightarrow> thrown + string) \<Rightarrow> FullChannelState \<Rightarrow> string
     \<Rightarrow> string option \<times> nat \<Rightarrow> thrown + string option" where
  "verifySlot recover state hash slot =
     (case slot of (sigToVerify, idx) \<Rightarrow>
        (case sigToVerify of
           None \<Rightarrow> Inr None
         | Some sg \<Rightarrow>
             if sg = [] then Inr None
             else (case recover hash sg of
                     Inl e \<Rightarrow> Inl e
                   | Inr recovered \<Rightarrow>
                       Inr (if idx < length (participants state)
                               \<and> recovered = participants state ! idx
                            then sigToVerify else None))))"

definition recoverCalls :: "string \<Rightarrow> string option list \<Rightarrow> (string \<times> string) list" where
  "recoverCalls hash sigs =
     concat (map (\<lambda>s. case s of None \<Rightarrow> [] | Some sg \<Rightarrow> if sg = [] then [] else [(hash, sg)]) sigs)"

text \<open>
  \<open>validateChannelUpdateSignatures\<close> returns a rejection message or \<open>undefined\<close>
  (\<open>Inr\<close>), or throws what a recovery threw (\<open>Inl\<close>).
\<close>

definition validateChannelUpdateSignatures ::
  "(ChannelCommitmentData \<Rightarrow> string) \<Rightarrow> (string \<Rightarrow> string \<Rightarrow> thrown + string)
     \<Rightarrow> FullChannelState \<Rightarrow> string option list \<Rightarrow> nat
     \<Rightarrow> (thrown + string option) \<times> (string \<times> string) list" where
  "validateChannelUpdateSignatures hashCC recover state updateSignatures requiredSigs =
     (let present = length (filter truthy_str updateSignatures)
      in if present < requiredSigs
         then (Inr (Some (''Only '' @ string_of_nat present @ ''/''
                          @ string_of_nat requiredSigs @ '' signatures present'')), [])
         else
           (let hash = hashCC
                  \<lparr>commit_chainId = chainId (networkContext state),
                   commit_state = rest_of state,
                   commit_adjudicatorAddress = adjudicatorAddress (networkContext state),
                   commit_signatures = []\<rparr>
            in (case awaitAll (map (verifySlot recover state hash)
                                 (zip updateSignatures [0 ..< length updateSignatures])) of
                  Inl e \<Rightarrow> Inl e
                | Inr checked \<Rightarrow>
                    (let valid = filter truthy_str checked
                     in if length valid < requiredSigs
                        then Inr (Some (''Only '' @ string_of_nat (length valid) @ ''/''
                                        @ string_of_nat requiredSigs
                                        @ '' are valid signatures''))
                        else Inr None),
                recoverCalls hash updateSignatures)))"

section \<open>Running the transfer definition: create and resolve\<close>

text \<open>
  The collaborators of \<open>create\<close> and \<open>resolve\<close> are libraries (ethers' ABI coder
  and \<open>Contract\<close>, the pure-evm module), taken as parameters; each may throw.
  \<open>abi_encode\<close> is \<open>defaultAbiCoder.encode([type], [value])\<close>, its type
  \<open>undefined\<close> when \<open>transferEncodings\<close> is too short;
  \<open>encodeFunctionData\<close> and the two \<open>decode\<close> functions are those of
  \<open>contract.interface\<close> (the second reads element 0 of the decoded result);
  \<open>evm_exec\<close> is \<open>evm.exec\<close> on the two hex strings;
  \<open>contract_create\<close> and \<open>contract_resolve\<close> call the method of the contract
  deployed at the given address through the signer's provider.
\<close>

record ResolveOutput =
  ret_to :: "string list"
  ret_amount :: "int list"

record TransferEnv =
  abi_encode :: "string option \<Rightarrow> string \<Rightarrow> thrown + string"
  encodeFunctionData :: "string \<Rightarrow> string list \<Rightarrow> thrown + string"
  decode_create :: "string \<Rightarrow> thrown + bool"
  decode_resolve :: "string \<Rightarrow> thrown + ResolveOutput"
  evm_exec :: "string \<Rightarrow> string \<Rightarrow> thrown + string"
  contract_create :: "string \<Rightarrow> string \<Rightarrow> thrown + bool"
  contract_resolve :: "string \<Rightarrow> string \<Rightarrow> string \<Rightarrow> thrown + ResolveOutput"

text \<open>
  The calls a run makes: \<open>EvmExec bytecode data\<close> is a local execution,
  \<open>ContractCall address method arguments\<close> a read of the chain.
\<close>

datatype call =
    EvmExec string string
  | ContractCall string string "string list"

definition index_opt :: "'a list \<Rightarrow> nat \<Rightarrow> 'a option" where
  "index_opt xs i = (if i < length xs then Some (xs ! i) else None)"

text \<open>\<open>s.replace(/^0x/, "")\<close>\<close>

fun strip_0x :: "string \<Rightarrow> string" where
  "strip_0x (a # b # cs) = (if a = CHR ''0'' \<and> b = CHR ''x'' then cs else a # b # cs)"
| "strip_0x cs = cs"

definition execEvmBytecode :: "TransferEnv \<Rightarrow> string \<Rightarrow> string \<Rightarrow> thrown + string" where
  "execEvmBytecode env bytecode payload = evm_exec env (strip_0x bytecode) (strip_0x payload)"

text \<open>
  The amounts \<open>resolve\<close> returns are BigNumbers on the local path and their
  decimal strings on the chain path.
\<close>

datatype amount_value = AsBigNumber int | AsString string

record ResolvedBalance =
  rb_to :: "string list"
  rb_amount :: "amount_value list"

text \<open>
  The body of the \<open>try\<close> in \<open>create\<close>: \<open>Inl\<close> is an exception, which the
  \<open>catch\<close> only logs.
\<close>

definition create_local ::
  "TransferEnv \<Rightarrow> string \<Rightarrow> string \<Rightarrow> (thrown + bool) \<times> call list" where
  "create_local env bytecode encodedState =
     (case encodeFunctionData env ''create'' [encodedState] of
        Inl e \<Rightarrow> (Inl e, [])
      | Inr data \<Rightarrow>
          (case execEvmBytecode env bytecode data of
             Inl e \<Rightarrow> Inl e
           | Inr output \<Rightarrow> decode_create env output,
           [EvmExec bytecode data]))"

definition create ::
  "TransferEnv \<Rightarrow> FullTransferState \<Rightarrow> string option \<Rightarrow> (thrown + bool) \<times> call list" where
  "create env transfer bytecode =
     (case abi_encode env (index_opt (transferEncodings transfer) 0) (transferState transfer) of
        Inl e \<Rightarrow> (Inl e, [])
      | Inr encodedState \<Rightarrow>
          (let contract = transferId transfer;
               chain = (contract_create env contract encodedState,
                        [ContractCall contract ''create'' [encodedState]])
           in case bytecode of
                None \<Rightarrow> chain
              | Some code \<Rightarrow>
                  if code = [] then chain
                  else (case create_local env code encodedState of
                          (Inr accepted, calls) \<Rightarrow> (Inr accepted, calls)
                        | (Inl e, calls) \<Rightarrow> (fst chain, calls @ snd chain))))"

definition resolve_local ::
  "TransferEnv \<Rightarrow> string \<Rightarrow> string \<Rightarrow> string
     \<Rightarrow> (thrown + ResolvedBalance) \<times> call list" where
  "resolve_local env bytecode encodedState encodedResolver =
     (case encodeFunctionData env ''resolve'' [encodedState, encodedResolver] of
        Inl e \<Rightarrow> (Inl e, [])
      | Inr data \<Rightarrow>
          (case execEvmBytecode env bytecode data of
             Inl e \<Rightarrow> Inl e
           | Inr output \<Rightarrow>
               (case decode_resolve env output of
                  Inl e \<Rightarrow> Inl e
                | Inr ret \<Rightarrow>
                    Inr \<lparr>rb_to = ret_to ret, rb_amount = map AsBigNumber (ret_amount ret)\<rparr>),
           [EvmExec bytecode data]))"

definition resolve ::
  "TransferEnv \<Rightarrow> FullTransferState \<Rightarrow> string option
     \<Rightarrow> (thrown + ResolvedBalance) \<times> call list" where
  "resolve env transfer bytecode =
     (case abi_encode env (index_opt (transferEncodings transfer) 0) (transferState transfer) of
        Inl e \<Rightarrow> (Inl e, [])
      | Inr encodedState \<Rightarrow>
     (case abi_encode env (index_opt (transferEncodings transfer) 1) (transferResolver transfer) of
        Inl e \<Rightarrow> (Inl e, [])
      | Inr encodedResolver \<Rightarrow>
          (let contract = transferDefinition transfer;
               chain =
                 (case contract_resolve env contract encodedState encodedResolver of
                    Inl e \<Rightarrow> Inl e
                  | Inr ret \<Rightarrow>
                      Inr \<lparr>rb_to = ret_to ret,
                           rb_amount = map (\<lambda>a. AsString (BigNumber_toString a)) (ret_amount ret)\<rparr>,
                  [ContractCall contract ''resolve'' [encodedState, encodedResolver]])
           in case bytecode of
                None \<Rightarrow> chain
              | Some code \<Rightarrow>
                  if code = [] then chain
                  else (case resolve_local env code encodedState encodedResolver of
                          (Inr ret, calls) \<Rightarrow> (Inr ret, calls)
                        | (Inl e, calls) \<Rightarrow> (fst chain, calls @ snd chain)))))"

section \<open>Deposit reconciliation\<close>

text \<open>
  \<open>IVectorOnchainService\<close>, as far as \<open>reconcileDeposit\<close> uses it: the two reads,
  each returning a \<open>Result\<close> (a BigNumber; a record of two BigNumbers).
\<close>

record LatestDeposit =
  dep_amount :: int
  dep_nonce :: int

record IVectorOnchainService =
  getChannelOnchainBalance :: "string \<Rightarrow> int \<Rightarrow> string \<Rightarrow> (int, thrown) Result"
  getLatestDepositByAssetId ::
    "string \<Rightarrow> int \<Rightarrow> string \<Rightarrow> int \<Rightarrow> (LatestDeposit, thrown) Result"

record Reconciled =
  rec_balance :: Balance
  rec_latestDepositNonce :: int

definition reconcileDeposit ::
  "string \<Rightarrow> int \<Rightarrow> Balance \<Rightarrow> int \<Rightarrow> string \<Rightarrow> string \<Rightarrow> IVectorOnchainService
     \<Rightarrow> thrown + (Reconciled, thrown) Result" where
  "reconcileDeposit channelAddress' chainId' initialBalance latestDepositNonce'
       lockedBalance' assetId onchainService =
     (let balanceRes = getChannelOnchainBalance onchainService channelAddress' chainId' assetId
      in if isError balanceRes then Inr (Result_fail (getError balanceRes))
      else
     (case getValue balanceRes of Inl e \<Rightarrow> Inl e | Inr onchainBalance \<Rightarrow>
     (let latestDepositARes = getLatestDepositByAssetId onchainService
            channelAddress' chainId' assetId latestDepositNonce'
      in if isError latestDepositARes then Inr (Result_fail (getError latestDepositARes))
      else
     (case getValue latestDepositARes of Inl e \<Rightarrow> Inl e | Inr v \<Rightarrow>
     (case v of
        JObj latestDepositA \<Rightarrow>
          (case BigNumber_from (JNum latestDepositNonce') of
             Inl e \<Rightarrow> Inl e
           | Inr stored \<Rightarrow>
          (case BigNumber_from (index_str (amount initialBalance) 0) of
             Inl e \<Rightarrow> Inl e
           | Inr initial0 \<Rightarrow>
          (let balanceA =
                 (if dep_nonce latestDepositA > stored
                  then dep_amount latestDepositA + initial0
                  else initial0)
           in case BigNumber_from onchainBalance of
                Inl e \<Rightarrow> Inl e
              | Inr onchain \<Rightarrow>
             (case BigNumber_from (JStr lockedBalance') of
                Inl e \<Rightarrow> Inl e
              | Inr locked \<Rightarrow>
             (case BigNumber_toNumber (dep_nonce latestDepositA) of
                Inl e \<Rightarrow> Inl e
              | Inr newNonce \<Rightarrow>
                  Inr (Result_ok (JObj
                    \<lparr>rec_balance = initialBalance
                       \<lparr>amount := [BigNumber_toString balanceA,
                                   BigNumber_toString (onchain - (balanceA + locked))]\<rparr>,
                     rec_latestDepositNonce = newNonce\<rparr>)))))))
      | _ \<Rightarrow> Inl (TypeError ''Cannot read property nonce''))))))"

section \<open>The in-memory messaging service (MemoryMessagingService)\<close>

text \<open>
  A message on the bus. \<open>inbox\<close> is optional in the bus's type; the fields of
  \<open>data\<close> are all optional.
\<close>

record MessageData =
  data_update :: "ChannelUpdate option"
  data_previousUpdate :: "ChannelUpdate option"
  data_error :: "InboundChannelUpdateError option"

record Message =
  msg_to :: string
  msg_from :: string
  msg_inbox :: "string option"
  msg_data :: MessageData
  sentBy :: string

text \<open>The value of a successful protocol result: \<open>{ update, previousUpdate }\<close>.\<close>

record Exchanged =
  ex_update :: "ChannelUpdate option"
  ex_previousUpdate :: "ChannelUpdate option"

text \<open>
  \<open>Evt\<close> is a library. \<open>evt.pipe(filter).waitFor(timeout)\<close> resolves with the first
  event posted that passes the filter and rejects with a timeout error when there
  is none within \<open>timeout\<close> ms. The last argument lists, in order, the events posted
  on the bus while the waiter is attached and before that time has passed.
\<close>

definition waitFor :: "(Message \<Rightarrow> bool) \<Rightarrow> nat \<Rightarrow> Message list \<Rightarrow> thrown + Message" where
  "waitFor flt timeout_ms events =
     (case find flt events of
        None \<Rightarrow> Inl (EvtTimeoutError timeout_ms)
      | Some m \<Rightarrow> Inr m)"

text \<open>
  \<open>objOrUndefined\<close>: an optional object as a JavaScript value.
\<close>

fun objOrUndefined :: "'o option \<Rightarrow> 'o js_value" where
  "objOrUndefined None = JUndefined"
| "objOrUndefined (Some x) = JObj x"

text \<open>
  The filter \<open>sendProtocolMessage\<close> pipes the bus through, for the update it sends
  and the inbox it generated. Its parameter \<open>{ to, from, inbox, sentBy }\<close> takes
  the fields of the message, so inside it \<open>inbox\<close> is the message's inbox, not the
  generated one, and \<open>inbox === inbox\<close> compares the message's inbox with itself.
\<close>

definition replyFilter :: "ChannelUpdate \<Rightarrow> string \<Rightarrow> Message \<Rightarrow> bool" where
  "replyFilter channelUpdate generated m =
     (msg_from m = toIdentifier channelUpdate
      \<and> msg_to m = fromIdentifier channelUpdate
      \<and> msg_inbox m = msg_inbox m
      \<and> sentBy m = toIdentifier channelUpdate)"

text \<open>
  \<open>sendProtocolMessage\<close>. \<open>generated\<close> is the value \<open>getRandomBytes32()\<close> returns
  in this call and \<open>later\<close> the events others post on the bus before the timeout.
  The function returns the messages it posts, and its result or what it throws.
  The waiter is attached before the message is posted, so it sees that message too.
\<close>

definition sendProtocolMessage ::
  "ChannelUpdate \<Rightarrow> ChannelUpdate option \<Rightarrow> nat \<Rightarrow> nat \<Rightarrow> string \<Rightarrow> Message list
     \<Rightarrow> Message list \<times> (thrown + (Exchanged, InboundChannelUpdateError) Result)" where
  "sendProtocolMessage channelUpdate previousUpdate timeout_ms numRetries generated later =
     (let inbox = generated;
          posted = \<lparr>msg_to = toIdentifier channelUpdate,
                    msg_from = fromIdentifier channelUpdate,
                    msg_inbox = Some inbox,
                    msg_data = \<lparr>data_update = Some channelUpdate,
                                data_previousUpdate = previousUpdate,
                                data_error = None\<rparr>,
                    sentBy = fromIdentifier channelUpdate\<rparr>
      in ([posted],
          case waitFor (replyFilter channelUpdate inbox) timeout_ms (posted # later) of
            Inl e \<Rightarrow> Inl e
          | Inr res \<Rightarrow>
              if truthy (objOrUndefined (data_error (msg_data res)))
              then Inr (Result_fail (objOrUndefined (data_error (msg_data res))))
              else Inr (Result_ok (JObj
                     \<lparr>ex_update = data_update (msg_data res),
                      ex_previousUpdate = data_previousUpdate (msg_data res)\<rparr>))))"

definition respondToProtocolMessage ::
  "string \<Rightarrow> ChannelUpdate \<Rightarrow> string \<Rightarrow> ChannelUpdate option \<Rightarrow> Message list" where
  "respondToProtocolMessage sentBy' channelUpdate inbox previousUpdate =
     [\<lparr>msg_to = fromIdentifier channelUpdate,
       msg_from = toIdentifier channelUpdate,
       msg_inbox = Some inbox,
       msg_data = \<lparr>data_update = Some channelUpdate,
                   data_previousUpdate = previousUpdate,
                   data_error = None\<rparr>,
       sentBy = sentBy'\<rparr>]"

definition respondWithProtocolError ::
  "string \<Rightarrow> string \<Rightarrow> string \<Rightarrow> InboundChannelUpdateError \<Rightarrow> Message list" where
  "respondWithProtocolError updateFromIdentifier updateToIdentifier inbox err =
     [\<lparr>msg_to = updateFromIdentifier,
       msg_from = updateToIdentifier,
       msg_inbox = Some inbox,
       msg_data = \<lparr>data_update = None, data_previousUpdate = None, data_error = Some err\<rparr>,
       sentBy = updateToIdentifier\<rparr>]"

text \<open>
  \<open>onReceiveProtocolMessage\<close> attaches a handler behind the filter
  \<open>to === myPublicIdentifier\<close>. \<open>receiveHandler\<close> is that handler with its filter:
  the calls of \<open>callback\<close> (its three arguments) that one posted event causes.
  \<open>onReceiveProtocolMessage\<close> gives the calls caused by a sequence of posted events.
\<close>

definition receiveHandler ::
  "string \<Rightarrow> Message
     \<Rightarrow> ((Exchanged, InboundChannelUpdateError) Result \<times> string \<times> string option) list" where
  "receiveHandler myPublicIdentifier m =
     (if msg_to m = myPublicIdentifier
      then [(Result_ok (JObj \<lparr>ex_update = data_update (msg_data m),
                              ex_previousUpdate = data_previousUpdate (msg_data m)\<rparr>),
             msg_from m, msg_inbox m)]
      else [])"

fun onReceiveProtocolMessage ::
  "string \<Rightarrow> Message list
     \<Rightarrow> ((Exchanged, InboundChannelUpdateError) Result \<times> string \<times> string option) list" where
  "onReceiveProtocolMessage myPublicIdentifier [] = []"
| "onReceiveProtocolMessage myPublicIdentifier (m # posted) =
     receiveHandler myPublicIdentifier m @ onReceiveProtocolMessage myPublicIdentifier posted"

section \<open>Predicates of the specification\<close>

text \<open>Exactly one of \<open>data.update\<close> and \<open>data.error\<close> is present.\<close>

definition carriesExactlyOne :: "MessageData \<Rightarrow> bool" where
  "carriesExactlyOne d = ((data_update d \<noteq> None) \<noteq> (data_error d \<noteq> None))"

text \<open>
  The commitment of a state with no signatures attached: chain id, the state
  without \<open>publicIdentifiers\<close> and \<open>networkContext\<close>, adjudicator address, and
  an empty \<open>signatures\<close> array.
\<close>

definition signingPreimage :: "FullChannelState \<Rightarrow> ChannelCommitmentData" where
  "signingPreimage st =
     \<lparr>commit_chainId = chainId (networkContext st),
      commit_state = rest_of st,
      commit_adjudicatorAddress = adjudicatorAddress (networkContext st),
      commit_signatures = []\<rparr>"

text \<open>
  Slot \<open>i\<close> of a signature array is valid: it is non-empty and its recovery,
  against the hash of the signature-free commitment, returns \<open>participants[i]\<close>.
\<close>

definition slotValid ::
  "(ChannelCommitmentData \<Rightarrow> string) \<Rightarrow> (string \<Rightarrow> string \<Rightarrow> thrown + string)
     \<Rightarrow> FullChannelState \<Rightarrow> string option list \<Rightarrow> nat \<Rightarrow> bool" where
  "slotValid hashCC recover st sigs i =
     (case sigs ! i of
        None \<Rightarrow> False
      | Some sg \<Rightarrow>
          sg \<noteq> [] \<and> i < length (participants st)
          \<and> recover (hashCC (signingPreimage st)) sg = Inr (participants st ! i))"

text \<open>
  The recovery of every non-empty signature of the array, against the hash of the
  signature-free commitment, returns an address.
\<close>

definition recoveriesReturn ::
  "(ChannelCommitmentData \<Rightarrow> string) \<Rightarrow> (string \<Rightarrow> string \<Rightarrow> thrown + string)
     \<Rightarrow> FullChannelState \<Rightarrow> string option list \<Rightarrow> bool" where
  "recoveriesReturn hashCC recover st sigs =
     list_all (\<lambda>s. case s of
                      None \<Rightarrow> True
                    | Some sg \<Rightarrow> sg = [] \<or> \<not> isl (recover (hashCC (signingPreimage st)) sg))
       sigs"

section \<open>Example data\<close>

text \<open>
  A chain on which the channel holds 100 of the asset and whose latest deposit
  record is \<open>{amount: 100, nonce: 1}\<close>.
\<close>

definition scenario_chain :: IVectorOnchainService where
  "scenario_chain =
     \<lparr>getChannelOnchainBalance = (\<lambda>channel chain asset. Result_ok (JObj 100)),
      getLatestDepositByAssetId =
        (\<lambda>channel chain asset since. Result_ok (JObj \<lparr>dep_amount = 100, dep_nonce = 1\<rparr>))\<rparr>"

text \<open>
  Two updates that alice proposes to bob, on two channels, and an error bob may
  answer with.
\<close>

definition update_on :: "string \<Rightarrow> ChannelUpdate" where
  "update_on channel =
     \<lparr>upd_type = DEPOSIT, upd_channelAddress = channel,
      fromIdentifier = ''alice'', toIdentifier = ''bob'', upd_nonce = 2,
      upd_balance = \<lparr>to = [''0xaa'', ''0xbb''], amount = [''100'', ''0'']\<rparr>,
      upd_assetId = ''0x0'', upd_details = DepositDetails 1,
      upd_signatures = [Some ''sigA'', None]\<rparr>"

definition stale_error :: InboundChannelUpdateError where
  "stale_error = \<lparr>err_message = ''StaleUpdate'', err_context = ''nonce 2''\<rparr>"

text \<open>
  A channel between \<open>0xaa\<close> (alice) and \<open>0xbb\<close> (bob), their signers, a hash that
  would show any signature in its input, and a recovery function that knows the
  two signers' signatures and throws on a signature that is too short.
\<close>

definition channel_c1 :: FullChannelState where
  "channel_c1 =
     \<lparr>channelAddress = ''0xc1'', participants = [''0xaa'', ''0xbb''], timeout = 86400,
      balances = [\<lparr>to = [''0xaa'', ''0xbb''], amount = [''100'', ''0'']\<rparr>],
      lockedBalance = [''0''], assetIds = [''0x0''], nonce = 2, latestDepositNonce = 1,
      merkleRoot = ''0x00'', latestUpdate = None,
      publicIdentifiers = [''alice'', ''bob''],
      networkContext = \<lparr>chainId = 1, adjudicatorAddress = ''0xad''\<rparr>\<rparr>"

definition alice_signer :: IChannelSigner where
  "alice_signer = \<lparr>address = ''0xaa'', signMessage = (\<lambda>digest. ''A:'' @ digest)\<rparr>"


definition toy_hash :: "ChannelCommitmentData \<Rightarrow> string" where
  "toy_hash c =
     channelAddress (commit_state c)
     @ concat (map (\<lambda>s. case s of None \<Rightarrow> ''_'' | Some sg \<Rightarrow> sg) (commit_signatures c))"

definition toy_recover :: "string \<Rightarrow> string \<Rightarrow> thrown + string" where
  "toy_recover digest sg =
     (if sg = ''A:'' @ digest then Inr ''0xaa''
      else if sg = ''B:'' @ digest then Inr ''0xbb''
      else if length sg < 4 then Inl (Error ''invalid signature'')
      else Inr ''0x00'')"

text \<open>
  A transfer whose id and definition differ, and collaborators for which local
  execution fails and only the contract at the definition's address answers.
\<close>

definition hashlock_transfer :: FullTransferState where
  "hashlock_transfer =
     \<lparr>transferId = ''0x1d'', transferDefinition = ''0xdef'',
      transferEncodings = [''state'', ''resolver''], transferState = ''s'',
      transferResolver = ''r'', transferTimeout = 3600\<rparr>"

definition toy_env :: TransferEnv where
  "toy_env =
     \<lparr>abi_encode = (\<lambda>ty v. case ty of None \<Rightarrow> Inl (Error ''invalid type'') | Some t \<Rightarrow> Inr v),
      encodeFunctionData = (\<lambda>method args. Inr (method @ '':'' @ concat args)),
      decode_create = (\<lambda>output. Inr True),
      decode_resolve = (\<lambda>output. Inr \<lparr>ret_to = [''0xaa'', ''0xbb''], ret_amount = [0, 40]\<rparr>),
      evm_exec = (\<lambda>code data. Inl (Error ''revert'')),
      contract_create = (\<lambda>addr st.
         if addr = ''0xdef'' then Inr True else Inl (Error ''call exception'')),
      contract_resolve = (\<lambda>addr st res.
         if addr = ''0xdef'' then Inr \<lparr>ret_to = [''0xaa'', ''0xbb''], ret_amount = [0, 40]\<rparr>
         else Inl (Error ''call exception''))\<rparr>"

section \<open>Decimal strings: reading back what was written\<close>

lemma digit_val_digit_char: "d < 10 \<Longrightarrow> digit_val (digit_char d) = Some d"
proof -
  assume "d < 10"
  then have "d \<in> {0,1,2,3,4,5,6,7,8,9}" by auto
  then show ?thesis
    by (auto simp: digit_val_def digit_char_def)
qed

lemma digit_char_not_minus: "d < 10 \<Longrightarrow> digit_char d \<noteq> CHR ''-''"
proof -
  assume "d < 10"
  then have "d \<in> {0,1,2,3,4,5,6,7,8,9}" by auto
  then show ?thesis
    by (auto simp: digit_char_def)
qed

lemma parse_digits_snoc:
  "parse_digits acc (xs @ [c]) =
     (case parse_digits acc xs of
        None \<Rightarrow> None
      | Some m \<Rightarrow> (case digit_val c of None \<Rightarrow> None | Some d \<Rightarrow> Some (10 * m + d)))"
  by (induction xs arbitrary: acc) (auto split: option.splits)

lemma parse_digits_string_of_nat: "parse_digits 0 (string_of_nat n) = Some n"
proof (induction n rule: string_of_nat.induct)
  case (1 n)
  show ?case
  proof (cases "n < 10")
    case True
    then show ?thesis
      by (subst string_of_nat.simps) (simp add: digit_val_digit_char)
  next
    case False
    with 1 have ih: "parse_digits 0 (string_of_nat (n div 10)) = Some (n div 10)" by simp
    have "n mod 10 < 10" by simp
    then have dv: "digit_val (digit_char (n mod 10)) = Some (n mod 10)"
      by (rule digit_val_digit_char)
    show ?thesis
      using False ih dv
      by (subst string_of_nat.simps) (simp add: parse_digits_snoc)
  qed
qed

lemma string_of_nat_hd:
  "\<exists>d cs. d < 10 \<and> string_of_nat n = digit_char d # cs"
proof (induction n rule: string_of_nat.induct)
  case (1 n)
  show ?case
  proof (cases "n < 10")
    case True
    then show ?thesis
      by (subst string_of_nat.simps) auto
  next
    case False
    with 1 obtain d cs where "d < 10" "string_of_nat (n div 10) = digit_char d # cs"
      by auto
    then show ?thesis
      using False by (subst string_of_nat.simps) auto
  qed
qed

lemma parse_nat_string_of_nat: "parse_nat (string_of_nat n) = Some n"
  using string_of_nat_hd [of n]
  by (auto simp: parse_nat_def parse_digits_string_of_nat)

lemma BigNumber_roundtrip: "BigNumber_from_string (BigNumber_toString n) = Inr n"
proof (cases "n < 0")
  case True
  then show ?thesis
    by (simp add: BigNumber_from_string_def BigNumber_toString_def parse_nat_string_of_nat)
next
  case False
  obtain d cs where d: "d < 10" "string_of_nat (nat n) = digit_char d # cs"
    using string_of_nat_hd by blast
  have "parse_nat (digit_char d # cs) = Some (nat n)"
    using parse_nat_string_of_nat [of "nat n"] d by simp
  then show ?thesis
    using False d digit_char_not_minus [of d]
    by (simp add: BigNumber_from_string_def BigNumber_toString_def)
qed

section \<open>Properties of Result\<close>

text \<open>
  C9. For every value \<open>v\<close>, \<open>Result.ok(v)\<close> is not an error and \<open>getValue()\<close>
  returns \<open>v\<close>. For every truthy error \<open>e\<close>, \<open>Result.fail(e)\<close> is an error,
  \<open>getError()\<close> returns \<open>e\<close> and \<open>getValue()\<close> throws. \<open>Result.fail\<close> of a falsy
  error (the empty string, 0, null) is not an error: it is a success.
\<close>

theorem Result_ok_fail:
  fixes v :: "'t js_value" and e :: "'y js_value"
  shows "isError (Result_ok v :: ('t, 'y) Result) = False
       \<and> getValue (Result_ok v :: ('t, 'y) Result) = Inr v
       \<and> (truthy e \<longrightarrow>
            isError (Result_fail e :: ('t, 'y) Result) = True
          \<and> getError (Result_fail e :: ('t, 'y) Result) = e
          \<and> isl (getValue (Result_fail e :: ('t, 'y) Result)))
       \<and> isError (Result_fail (JStr []) :: ('t, 'y) Result) = False
       \<and> isError (Result_fail (JNum 0) :: ('t, 'y) Result) = False
       \<and> isError (Result_fail JNull :: ('t, 'y) Result) = False"
  by (simp add: Result_ok_def Result_fail_def Result_new_def getValue_def getError_def)

theorem Result_ok_fail_witness:
  "truthy (JStr ''boom'' :: unit js_value)
   \<and> isError (Result_fail (JStr ''boom'') :: (unit, unit) Result) = True
   \<and> getError (Result_fail (JStr ''boom'') :: (unit, unit) Result) = JStr ''boom''
   \<and> isl (getValue (Result_fail (JStr ''boom'') :: (unit, unit) Result))
   \<and> getValue (Result_ok (JNum 7) :: (unit, unit) Result) = Inr (JNum 7)"
  using Result_ok_fail [where v = "JNum 7 :: unit js_value" and e = "JStr ''boom'' :: unit js_value"]
  by simp

section \<open>Deposit reconciliation: the balances it returns\<close>

text \<open>
  C2. When both chain reads succeed, \<open>initialBalance.amount[0]\<close> and the locked
  balance are numeric strings, and the two nonces are safe integers,
  \<open>reconcileDeposit\<close> returns a success whose
  participant-0 balance is the deposit's amount plus \<open>initialBalance.amount[0]\<close> when
  the deposit's nonce is greater than the stored \<open>latestDepositNonce\<close> and
  \<open>initialBalance.amount[0]\<close> otherwise, whose participant-1 balance is the on-chain
  balance minus participant 0's new balance minus the locked balance, and whose
  \<open>latestDepositNonce\<close> is the deposit's nonce. The balances are returned as decimal
  strings, which read back as these numbers. The instance below is the spec's scenario:
  from balances \<open>["0","0"]\<close>, nonce 0, an on-chain balance of 100 and the deposit
  record \<open>{amount: 100, nonce: 1}\<close>, the result is \<open>["100","0"]\<close> and nonce 1.
\<close>

theorem reconcileDeposit_balances:
  assumes bal: "getChannelOnchainBalance svc ca cid asset = Result_ok (JObj onchain)"
    and dep: "getLatestDepositByAssetId svc ca cid asset ldn = Result_ok (JObj d)"
    and a0: "amount ib = s0 # others" "BigNumber_from_string s0 = Inr a0"
    and lk: "BigNumber_from_string locked = Inr l"
    and safe: "- MAX_SAFE < ldn" "ldn < MAX_SAFE" "\<bar>dep_nonce d\<bar> < 2 ^ 53"
  shows "reconcileDeposit ca cid ib ldn locked asset svc =
           Inr (Result_ok (JObj
             \<lparr>rec_balance = ib
                \<lparr>amount :=
                   [BigNumber_toString (if dep_nonce d > ldn then dep_amount d + a0 else a0),
                    BigNumber_toString
                      (onchain - (if dep_nonce d > ldn then dep_amount d + a0 else a0) - l)]\<rparr>,
              rec_latestDepositNonce = dep_nonce d\<rparr>))
       \<and> BigNumber_from_string
             (BigNumber_toString (if dep_nonce d > ldn then dep_amount d + a0 else a0)) =
           Inr (if dep_nonce d > ldn then dep_amount d + a0 else a0)
       \<and> BigNumber_from_string
             (BigNumber_toString
                (onchain - (if dep_nonce d > ldn then dep_amount d + a0 else a0) - l)) =
           Inr (onchain - (if dep_nonce d > ldn then dep_amount d + a0 else a0) - l)"
proof -
  have ok1: "isError (Result_ok (JObj onchain) :: (int, thrown) Result) = False"
    "getValue (Result_ok (JObj onchain) :: (int, thrown) Result) = Inr (JObj onchain)"
    by (simp_all add: Result_ok_def Result_new_def getValue_def)
  have ok2: "isError (Result_ok (JObj d) :: (LatestDeposit, thrown) Result) = False"
    "getValue (Result_ok (JObj d) :: (LatestDeposit, thrown) Result) = Inr (JObj d)"
    by (simp_all add: Result_ok_def Result_new_def getValue_def)
  have stored: "BigNumber_from (JNum ldn) = Inr ldn"
    using safe(1,2) by simp
  have first: "BigNumber_from (index_str (amount ib) 0) = Inr a0"
    using a0 by (simp add: index_str_def)
  have nonce: "BigNumber_toNumber (dep_nonce d) = Inr (dep_nonce d)"
    using safe(3) by (simp add: BigNumber_toNumber_def)
  have chain: "BigNumber_from (JObj onchain) = Inr onchain"
    by simp
  have lock: "BigNumber_from (JStr locked) = Inr l"
    using lk by simp
  have "reconcileDeposit ca cid ib ldn locked asset svc =
           Inr (Result_ok (JObj
             \<lparr>rec_balance = ib
                \<lparr>amount :=
                   [BigNumber_toString (if dep_nonce d > ldn then dep_amount d + a0 else a0),
                    BigNumber_toString
                      (onchain - (if dep_nonce d > ldn then dep_amount d + a0 else a0) - l)]\<rparr>,
              rec_latestDepositNonce = dep_nonce d\<rparr>))"
    unfolding reconcileDeposit_def
    by (simp add: bal dep ok1 ok2 stored first nonce chain lock Let_def algebra_simps
             del: BigNumber_from.simps)
  then show ?thesis
    by (simp only: BigNumber_roundtrip simp_thms)
qed

theorem reconcileDeposit_balances_witness:
  "reconcileDeposit ''0xc'' 1 \<lparr>to = [''0xaa'', ''0xbb''], amount = [''0'', ''0'']\<rparr> 0 ''0'' ''0x0''
       scenario_chain =
     Inr (Result_ok (JObj
       \<lparr>rec_balance = \<lparr>to = [''0xaa'', ''0xbb''], amount = [''100'', ''0'']\<rparr>,
        rec_latestDepositNonce = 1\<rparr>))"
proof -
  have h1: "getChannelOnchainBalance scenario_chain ''0xc'' 1 ''0x0'' = Result_ok (JObj 100)"
    by (simp add: scenario_chain_def)
  have h2: "getLatestDepositByAssetId scenario_chain ''0xc'' 1 ''0x0'' 0 =
              Result_ok (JObj \<lparr>dep_amount = 100, dep_nonce = 1\<rparr>)"
    by (simp add: scenario_chain_def)
  have h3: "amount \<lparr>to = [''0xaa'', ''0xbb''], amount = [''0'', ''0'']\<rparr> = ''0'' # [''0'']"
    by simp
  have h4: "BigNumber_from_string ''0'' = Inr 0"
    by (simp add: BigNumber_from_string_def parse_nat_def digit_val_def)
  have h5: "- MAX_SAFE < 0" "0 < MAX_SAFE"
    by (simp_all add: MAX_SAFE_def)
  have h6: "\<bar>dep_nonce \<lparr>dep_amount = 100, dep_nonce = 1\<rparr>\<bar> < 2 ^ 53"
    by simp
  have s100: "BigNumber_toString 100 = ''100''"
    by (simp add: BigNumber_toString_def string_of_nat.simps digit_char_def)
  have s0: "BigNumber_toString 0 = ''0''"
    by (simp add: BigNumber_toString_def string_of_nat.simps digit_char_def)
  show ?thesis
    using reconcileDeposit_balances [OF h1 h2 h3 h4 h4 h5 h6]
    by (simp add: s100 s0)
qed

section \<open>Receiving protocol messages\<close>

lemma onReceive_filter:
  "onReceiveProtocolMessage me posted =
     map (\<lambda>m. (Result_ok (JObj \<lparr>ex_update = data_update (msg_data m),
                                 ex_previousUpdate = data_previousUpdate (msg_data m)\<rparr>),
                msg_from m, msg_inbox m))
         (filter (\<lambda>m. msg_to m = me) posted)"
  by (induction posted) (simp_all add: receiveHandler_def)

text \<open>
  C10. The handler \<open>onReceiveProtocolMessage\<close> registers is called for exactly the
  posted messages whose \<open>to\<close> is the subscriber's identifier, in their order, with
  the sender and the inbox of the message, and always with \<open>Result.ok\<close> of
  \<open>{ update, previousUpdate }\<close>: no call receives a failed result. For a message that
  carries only an error the handler receives a success whose update is
  \<open>undefined\<close>.
\<close>

theorem onReceive_always_ok:
  "onReceiveProtocolMessage me posted =
     map (\<lambda>m. (Result_ok (JObj \<lparr>ex_update = data_update (msg_data m),
                                 ex_previousUpdate = data_previousUpdate (msg_data m)\<rparr>),
                msg_from m, msg_inbox m))
         (filter (\<lambda>m. msg_to m = me) posted)
   \<and> list_all (\<lambda>c. isError (fst c) = False) (onReceiveProtocolMessage me posted)
   \<and> (msg_to m = me \<and> data_update (msg_data m) = None \<and> data_error (msg_data m) = Some e
        \<longrightarrow> (\<exists>r. onReceiveProtocolMessage me [m] = [(r, msg_from m, msg_inbox m)]
                 \<and> isError r = False
                 \<and> getValue r =
                     Inr (JObj \<lparr>ex_update = None,
                                ex_previousUpdate = data_previousUpdate (msg_data m)\<rparr>)))"
proof -
  have a: "list_all (\<lambda>c. isError (fst c) = False) (onReceiveProtocolMessage me posted)"
    by (induction posted)
       (simp_all add: receiveHandler_def Result_ok_def Result_new_def)
  show ?thesis
    using a
    by (simp add: onReceive_filter receiveHandler_def Result_ok_def Result_new_def getValue_def)
qed

theorem onReceive_always_ok_witness:
  "msg_to (hd (respondWithProtocolError ''alice'' ''bob'' ''inbox-1'' stale_error)) = ''alice''
   \<and> data_update (msg_data (hd (respondWithProtocolError ''alice'' ''bob'' ''inbox-1'' stale_error))) = None
   \<and> data_error (msg_data (hd (respondWithProtocolError ''alice'' ''bob'' ''inbox-1'' stale_error)))
       = Some stale_error
   \<and> onReceiveProtocolMessage ''alice''
     (respondWithProtocolError ''alice'' ''bob'' ''inbox-1'' stale_error
      @ respondToProtocolMessage ''carol'' (update_on ''0xc1'' \<lparr>fromIdentifier := ''dave''\<rparr>) ''inbox-2'' None) =
     [(Result_ok (JObj \<lparr>ex_update = None, ex_previousUpdate = None\<rparr>), ''bob'', Some ''inbox-1'')]
   \<and> isError (Result_ok (JObj \<lparr>ex_update = None, ex_previousUpdate = None\<rparr>)
        :: (Exchanged, InboundChannelUpdateError) Result) = False"
  using onReceive_always_ok [of "''alice''"
     "respondWithProtocolError ''alice'' ''bob'' ''inbox-1'' stale_error
      @ respondToProtocolMessage ''carol'' (update_on ''0xc1'' \<lparr>fromIdentifier := ''dave''\<rparr>) ''inbox-2'' None"
     "hd (respondWithProtocolError ''alice'' ''bob'' ''inbox-1'' stale_error)" stale_error]
  by (simp add: respondWithProtocolError_def respondToProtocolMessage_def update_on_def
        Result_ok_def Result_new_def)

section \<open>Sending protocol messages\<close>

text \<open>
  C8. Every message posted by \<open>sendProtocolMessage\<close>, \<open>respondToProtocolMessage\<close> or
  \<open>respondWithProtocolError\<close> carries exactly one of \<open>data.update\<close> and
  \<open>data.error\<close>. When the waiter of \<open>sendProtocolMessage\<close> accepts a reply, the
  function returns a failed \<open>Result\<close> (holding the reply's error) exactly when the
  reply carries an error, and a success holding the reply's update and
  previousUpdate otherwise.
\<close>

theorem protocol_messages_one_of_update_error:
  "list_all (\<lambda>m. carriesExactlyOne (msg_data m))
      (fst (sendProtocolMessage cu prev t n g later))
   \<and> list_all (\<lambda>m. carriesExactlyOne (msg_data m)) (respondToProtocolMessage sb cu' inbox prev')
   \<and> list_all (\<lambda>m. carriesExactlyOne (msg_data m)) (respondWithProtocolError f t' inbox' err)
   \<and> (waitFor (replyFilter cu g) t (fst (sendProtocolMessage cu prev t n g later) @ later) = Inr res
        \<longrightarrow> (\<exists>r. snd (sendProtocolMessage cu prev t n g later) = Inr r
                 \<and> isError r = (data_error (msg_data res) \<noteq> None)
                 \<and> getError r = objOrUndefined (data_error (msg_data res))
                 \<and> (data_error (msg_data res) = None
                      \<longrightarrow> getValue r =
                            Inr (JObj \<lparr>ex_update = data_update (msg_data res),
                                       ex_previousUpdate = data_previousUpdate (msg_data res)\<rparr>))))"
proof -
  have sent: "list_all (\<lambda>m. carriesExactlyOne (msg_data m))
      (fst (sendProtocolMessage cu prev t n g later))"
    by (simp add: sendProtocolMessage_def carriesExactlyOne_def Let_def)
  have resp: "list_all (\<lambda>m. carriesExactlyOne (msg_data m)) (respondToProtocolMessage sb cu' inbox prev')"
    by (simp add: respondToProtocolMessage_def carriesExactlyOne_def)
  have err: "list_all (\<lambda>m. carriesExactlyOne (msg_data m)) (respondWithProtocolError f t' inbox' err)"
    by (simp add: respondWithProtocolError_def carriesExactlyOne_def)
  have reply: "waitFor (replyFilter cu g) t (fst (sendProtocolMessage cu prev t n g later) @ later) = Inr res
        \<longrightarrow> (\<exists>r. snd (sendProtocolMessage cu prev t n g later) = Inr r
                 \<and> isError r = (data_error (msg_data res) \<noteq> None)
                 \<and> getError r = objOrUndefined (data_error (msg_data res))
                 \<and> (data_error (msg_data res) = None
                      \<longrightarrow> getValue r =
                            Inr (JObj \<lparr>ex_update = data_update (msg_data res),
                                       ex_previousUpdate = data_previousUpdate (msg_data res)\<rparr>)))"
    by (cases "data_error (msg_data res)")
       (auto simp: sendProtocolMessage_def Let_def Result_ok_def Result_fail_def
          Result_new_def getValue_def getError_def)
  from sent resp err reply show ?thesis by blast
qed

theorem protocol_messages_one_of_update_error_witness:
  "waitFor (replyFilter (update_on ''0xc1'') ''inbox-1'') 20000
      (fst (sendProtocolMessage (update_on ''0xc1'') None 20000 0 ''inbox-1''
              (respondWithProtocolError ''alice'' ''bob'' ''inbox-1'' stale_error))
       @ respondWithProtocolError ''alice'' ''bob'' ''inbox-1'' stale_error)
     = Inr (hd (respondWithProtocolError ''alice'' ''bob'' ''inbox-1'' stale_error))
   \<and> snd (sendProtocolMessage (update_on ''0xc1'') None 20000 0 ''inbox-1''
              (respondWithProtocolError ''alice'' ''bob'' ''inbox-1'' stale_error))
     = Inr (Result_fail (JObj stale_error))
   \<and> isError (Result_fail (JObj stale_error) :: (Exchanged, InboundChannelUpdateError) Result)"
proof -
  have w: "waitFor (replyFilter (update_on ''0xc1'') ''inbox-1'') 20000
      (fst (sendProtocolMessage (update_on ''0xc1'') None 20000 0 ''inbox-1''
              (respondWithProtocolError ''alice'' ''bob'' ''inbox-1'' stale_error))
       @ respondWithProtocolError ''alice'' ''bob'' ''inbox-1'' stale_error)
     = Inr (hd (respondWithProtocolError ''alice'' ''bob'' ''inbox-1'' stale_error))"
    by (simp add: waitFor_def replyFilter_def sendProtocolMessage_def
          respondWithProtocolError_def update_on_def Let_def)
  have e: "data_error (msg_data (hd (respondWithProtocolError ''alice'' ''bob'' ''inbox-1'' stale_error)))
           = Some stale_error"
    by (simp add: respondWithProtocolError_def)
  from protocol_messages_one_of_update_error
         [of "update_on ''0xc1''" None 20000 0 "''inbox-1''"
             "respondWithProtocolError ''alice'' ''bob'' ''inbox-1'' stale_error"
             "''bob''" "update_on ''0xc1''" "''inbox-1''" None "''alice''" "''bob''" "''inbox-1''"
             stale_error "hd (respondWithProtocolError ''alice'' ''bob'' ''inbox-1'' stale_error)"]
       w e
  obtain r where r: "snd (sendProtocolMessage (update_on ''0xc1'') None 20000 0 ''inbox-1''
              (respondWithProtocolError ''alice'' ''bob'' ''inbox-1'' stale_error)) = Inr r"
      "isError r" "getError r = JObj stale_error"
    by auto
  have "snd (sendProtocolMessage (update_on ''0xc1'') None 20000 0 ''inbox-1''
              (respondWithProtocolError ''alice'' ''bob'' ''inbox-1'' stale_error))
     = Inr (Result_fail (JObj stale_error))"
    by (simp add: waitFor_def replyFilter_def sendProtocolMessage_def
          respondWithProtocolError_def update_on_def Let_def)
  with w r show ?thesis by simp
qed

text \<open>
  C1, at the input where the code departs from it. Alice has two rounds open with
  bob, on channels \<open>0xc1\<close> (inbox \<open>inbox-1\<close>) and \<open>0xc2\<close> (inbox \<open>inbox-2\<close>).
  Bob's reply to the second round, bound to \<open>inbox-2\<close>, passes the filter of the
  first round, whose inbox is \<open>inbox-1\<close>: the first round returns the update of
  channel \<open>0xc2\<close>.
\<close>

theorem reply_for_other_inbox_accepted:
  "snd (sendProtocolMessage (update_on ''0xc1'') None 20000 0 ''inbox-1''
          (fst (sendProtocolMessage (update_on ''0xc2'') None 20000 0 ''inbox-2'' [])
           @ respondToProtocolMessage ''bob'' (update_on ''0xc2'') ''inbox-2'' None))
     = Inr (Result_ok (JObj \<lparr>ex_update = Some (update_on ''0xc2''), ex_previousUpdate = None\<rparr>))
   \<and> replyFilter (update_on ''0xc1'') ''inbox-1''
        (hd (respondToProtocolMessage ''bob'' (update_on ''0xc2'') ''inbox-2'' None))
   \<and> msg_inbox (hd (respondToProtocolMessage ''bob'' (update_on ''0xc2'') ''inbox-2'' None))
        \<noteq> Some ''inbox-1''"
  by (simp add: waitFor_def replyFilter_def sendProtocolMessage_def
        respondToProtocolMessage_def update_on_def Let_def)

text \<open>
  C3, as stated, fails: with \<open>numRetries = 2\<close> and no reply at all, the function posts
  one message and throws the waiter's timeout error; it returns no \<open>Result\<close>.
\<close>

theorem no_reply_throws_counterexample:
  "sendProtocolMessage (update_on ''0xc1'') None 20000 2 ''inbox-1'' [] =
     ([\<lparr>msg_to = ''bob'', msg_from = ''alice'', msg_inbox = Some ''inbox-1'',
        msg_data = \<lparr>data_update = Some (update_on ''0xc1''), data_previousUpdate = None,
                    data_error = None\<rparr>,
        sentBy = ''alice''\<rparr>],
      Inl (EvtTimeoutError 20000))"
  by (simp add: waitFor_def replyFilter_def sendProtocolMessage_def update_on_def Let_def)

text \<open>
  C3, amended. When no event on the bus passes the filter before the timeout,
  \<open>sendProtocolMessage\<close> throws the waiter's timeout error (its promise rejects); it
  has posted exactly one message, carrying the one inbox generated for the call;
  and \<open>numRetries\<close> has no effect on what it does.
\<close>

theorem no_reply_throws_once:
  assumes "\<not> list_ex (replyFilter cu g) (fst (sendProtocolMessage cu prev t n g later) @ later)"
  shows "snd (sendProtocolMessage cu prev t n g later) = Inl (EvtTimeoutError t)
       \<and> map msg_inbox (fst (sendProtocolMessage cu prev t n g later)) = [Some g]
       \<and> sendProtocolMessage cu prev t n g later = sendProtocolMessage cu prev t 0 g later"
proof -
  have "find (replyFilter cu g) (fst (sendProtocolMessage cu prev t n g later) @ later) = None"
    using assms by (auto simp: find_None_iff list_ex_iff)
  then have "find (replyFilter cu g)
       (\<lparr>msg_to = toIdentifier cu, msg_from = fromIdentifier cu, msg_inbox = Some g,
          msg_data = \<lparr>data_update = Some cu, data_previousUpdate = prev, data_error = None\<rparr>,
          sentBy = fromIdentifier cu\<rparr> # later) = None"
    by (simp add: sendProtocolMessage_def Let_def)
  then show ?thesis
    by (simp add: sendProtocolMessage_def waitFor_def Let_def)
qed

theorem no_reply_throws_once_witness:
  "\<not> list_ex (replyFilter (update_on ''0xc1'') ''inbox-1'')
        (fst (sendProtocolMessage (update_on ''0xc1'') None 20000 3 ''inbox-1'' []) @ [])
   \<and> snd (sendProtocolMessage (update_on ''0xc1'') None 20000 3 ''inbox-1'' [])
       = Inl (EvtTimeoutError 20000)
   \<and> map msg_inbox (fst (sendProtocolMessage (update_on ''0xc1'') None 20000 3 ''inbox-1'' []))
       = [Some ''inbox-1'']"
proof -
  have h: "\<not> list_ex (replyFilter (update_on ''0xc1'') ''inbox-1'')
        (fst (sendProtocolMessage (update_on ''0xc1'') None 20000 3 ''inbox-1'' []) @ [])"
    by (simp add: replyFilter_def sendProtocolMessage_def update_on_def Let_def)
  from no_reply_throws_once [OF h]
  have "snd (sendProtocolMessage (update_on ''0xc1'') None 20000 3 ''inbox-1'' [])
          = Inl (EvtTimeoutError 20000)
      \<and> map msg_inbox (fst (sendProtocolMessage (update_on ''0xc1'') None 20000 3 ''inbox-1'' []))
          = [Some ''inbox-1'']"
    by blast
  with h show ?thesis by blast
qed

section \<open>Validating the signatures of an update\<close>

lemma zip_upt_nth: "zip xs [0 ..< length xs] = map (\<lambda>i. (xs ! i, i)) [0 ..< length xs]"
  by (rule nth_equalityI) simp_all

lemma awaitAll_Inr: "awaitAll xs = Inr ys \<Longrightarrow> xs = map Inr ys"
  by (induction xs arbitrary: ys) (auto split: sum.splits)

lemma awaitAll_returns: "list_all (\<lambda>x. \<not> isl x) xs \<Longrightarrow> \<exists>ys. awaitAll xs = Inr ys"
  by (induction xs) (auto split: sum.splits)

lemma verifySlot_truthy:
  "verifySlot recover st h (s, i) = Inr r
     \<Longrightarrow> truthy_str r =
         (case s of
            None \<Rightarrow> False
          | Some sg \<Rightarrow> sg \<noteq> [] \<and> i < length (participants st)
                       \<and> recover h sg = Inr (participants st ! i))"
  by (cases s) (auto simp: verifySlot_def split: if_splits sum.splits)

lemma verifySlot_valid:
  "verifySlot recover st (hashCC (signingPreimage st)) (sigs ! i, i) = Inr r
     \<Longrightarrow> truthy_str r = slotValid hashCC recover st sigs i"
  unfolding slotValid_def by (rule verifySlot_truthy)

lemma verifySlot_returns:
  "recoveriesReturn hashCC recover st sigs \<Longrightarrow> i < length sigs
     \<Longrightarrow> \<not> isl (verifySlot recover st (hashCC (signingPreimage st)) (sigs ! i, i))"
proof -
  assume all: "recoveriesReturn hashCC recover st sigs" and i: "i < length sigs"
  from i have "sigs ! i \<in> set sigs" by simp
  with all have
    "case sigs ! i of None \<Rightarrow> True
     | Some sg \<Rightarrow> sg = [] \<or> \<not> isl (recover (hashCC (signingPreimage st)) sg)"
    unfolding recoveriesReturn_def list_all_iff by blast
  then show ?thesis
    by (cases "sigs ! i") (auto simp: verifySlot_def split: sum.splits)
qed

lemma checked_count:
  assumes "awaitAll (map (verifySlot recover st (hashCC (signingPreimage st)))
                       (zip sigs [0 ..< length sigs])) = Inr checked"
  shows "length (filter truthy_str checked)
           = length (filter (slotValid hashCC recover st sigs) [0 ..< length sigs])"
proof -
  from assms have eq:
    "map (\<lambda>i. verifySlot recover st (hashCC (signingPreimage st)) (sigs ! i, i))
       [0 ..< length sigs] = map Inr checked"
    using awaitAll_Inr [OF assms] by (simp add: zip_upt_nth o_def)
  then have len: "length checked = length sigs"
    by (metis length_map length_upt minus_nat.diff_0)
  have slot: "truthy_str (checked ! i) = slotValid hashCC recover st sigs i"
    if "i < length sigs" for i
  proof -
    have "map (\<lambda>i. verifySlot recover st (hashCC (signingPreimage st)) (sigs ! i, i))
            [0 ..< length sigs] ! i = map Inr checked ! i"
      using eq by simp
    then have "verifySlot recover st (hashCC (signingPreimage st)) (sigs ! i, i)
                 = Inr (checked ! i)"
      using that len by simp
    then show ?thesis by (rule verifySlot_valid)
  qed
  have full: "map (\<lambda>i. checked ! i) [0 ..< length sigs] = checked"
    using len by (metis map_nth)
  have "length (filter truthy_str (map (\<lambda>i. checked ! i) [0 ..< length sigs]))
          = length (filter (\<lambda>i. truthy_str (checked ! i)) [0 ..< length sigs])"
    by (simp add: filter_map o_def)
  then have "length (filter truthy_str checked)
          = length (filter (\<lambda>i. truthy_str (checked ! i)) [0 ..< length sigs])"
    by (simp only: full)
  moreover have "filter (\<lambda>i. truthy_str (checked ! i)) [0 ..< length sigs]
                   = filter (slotValid hashCC recover st sigs) [0 ..< length sigs]"
    by (rule filter_cong) (simp_all add: slot)
  ultimately show ?thesis by simp
qed

lemma validate_unfold:
  "fst (validateChannelUpdateSignatures hashCC recover st sigs req) =
     (if length (filter truthy_str sigs) < req
      then Inr (Some (''Only '' @ string_of_nat (length (filter truthy_str sigs)) @ ''/''
                      @ string_of_nat req @ '' signatures present''))
      else (case awaitAll (map (verifySlot recover st (hashCC (signingPreimage st)))
                             (zip sigs [0 ..< length sigs])) of
              Inl e \<Rightarrow> Inl e
            | Inr checked \<Rightarrow>
                if length (filter truthy_str checked) < req
                then Inr (Some (''Only '' @ string_of_nat (length (filter truthy_str checked))
                                @ ''/'' @ string_of_nat req @ '' are valid signatures''))
                else Inr None))"
  unfolding validateChannelUpdateSignatures_def signingPreimage_def Let_def
  by simp

text \<open>
  C4, as stated, fails: with \<open>requiredSigs = 1\<close>, alice's valid signature in slot 0
  and the same signature in slot 1, where it recovers to alice and not to
  \<open>participants[1]\<close>, the function returns no error.
\<close>

theorem wrong_slot_signature_accepted_counterexample:
  "fst (validateChannelUpdateSignatures toy_hash toy_recover channel_c1
          [Some ''A:0xc1'', Some ''A:0xc1''] 1) = Inr None
   \<and> toy_recover (toy_hash (signingPreimage channel_c1)) ''A:0xc1'' = Inr ''0xaa''
   \<and> participants channel_c1 ! 1 = ''0xbb''"
  by (simp add: validateChannelUpdateSignatures_def verifySlot_def toy_hash_def toy_recover_def
        channel_c1_def rest_of_def signingPreimage_def recoverCalls_def Let_def)

text \<open>
  C4, amended. Call a slot \<open>i\<close> valid when it is non-empty and recovers, against
  the hash of the signature-free commitment of the state, to \<open>participants[i]\<close>
  (a signature that recovers to the other participant is not valid).
  \<open>validateChannelUpdateSignatures\<close> returns a rejection whenever fewer than
  \<open>requiredSigs\<close> entries are non-empty; it returns a rejection whenever the
  recoveries of the non-empty entries all return and fewer than \<open>requiredSigs\<close>
  slots are valid; and it returns no error only when at least \<open>requiredSigs\<close>
  entries are non-empty and at least \<open>requiredSigs\<close> slots are valid.
\<close>

theorem validate_counts_valid_signatures:
  "(length (filter truthy_str sigs) < req \<longrightarrow>
      (\<exists>msg. fst (validateChannelUpdateSignatures hashCC recover st sigs req) = Inr (Some msg)))
   \<and> (recoveriesReturn hashCC recover st sigs
        \<and> length (filter (slotValid hashCC recover st sigs) [0 ..< length sigs]) < req \<longrightarrow>
      (\<exists>msg. fst (validateChannelUpdateSignatures hashCC recover st sigs req) = Inr (Some msg)))
   \<and> (fst (validateChannelUpdateSignatures hashCC recover st sigs req) = Inr None \<longrightarrow>
      req \<le> length (filter truthy_str sigs)
      \<and> req \<le> length (filter (slotValid hashCC recover st sigs) [0 ..< length sigs]))"
proof -
  let ?slots = "map (verifySlot recover st (hashCC (signingPreimage st)))
                  (zip sigs [0 ..< length sigs])"
  have few: "length (filter truthy_str sigs) < req \<longrightarrow>
      (\<exists>msg. fst (validateChannelUpdateSignatures hashCC recover st sigs req) = Inr (Some msg))"
    by (simp add: validate_unfold)
  have invalid: "recoveriesReturn hashCC recover st sigs
        \<and> length (filter (slotValid hashCC recover st sigs) [0 ..< length sigs]) < req \<longrightarrow>
      (\<exists>msg. fst (validateChannelUpdateSignatures hashCC recover st sigs req) = Inr (Some msg))"
  proof
    assume h: "recoveriesReturn hashCC recover st sigs
        \<and> length (filter (slotValid hashCC recover st sigs) [0 ..< length sigs]) < req"
    have "list_all (\<lambda>x. \<not> isl x) ?slots"
      using h verifySlot_returns [of hashCC recover st sigs]
      by (simp add: zip_upt_nth list_all_iff)
    then obtain checked where c: "awaitAll ?slots = Inr checked"
      using awaitAll_returns by blast
    have "length (filter truthy_str checked) < req"
      using checked_count [where recover = recover and st = st and hashCC = hashCC and sigs = sigs, OF c] h
      by simp
    then show "\<exists>msg. fst (validateChannelUpdateSignatures hashCC recover st sigs req)
                       = Inr (Some msg)"
      by (simp add: validate_unfold c)
  qed
  have accepted: "fst (validateChannelUpdateSignatures hashCC recover st sigs req) = Inr None \<longrightarrow>
      req \<le> length (filter truthy_str sigs)
      \<and> req \<le> length (filter (slotValid hashCC recover st sigs) [0 ..< length sigs])"
  proof
    assume ok: "fst (validateChannelUpdateSignatures hashCC recover st sigs req) = Inr None"
    then have present: "req \<le> length (filter truthy_str sigs)"
      by (simp add: validate_unfold split: if_splits)
    with ok obtain checked where c: "awaitAll ?slots = Inr checked"
      and v: "\<not> length (filter truthy_str checked) < req"
      by (auto simp: validate_unfold split: if_splits sum.splits)
    from v checked_count [where recover = recover and st = st and hashCC = hashCC and sigs = sigs, OF c]
      present
    show "req \<le> length (filter truthy_str sigs)
      \<and> req \<le> length (filter (slotValid hashCC recover st sigs) [0 ..< length sigs])"
      by simp
  qed
  from few invalid accepted show ?thesis by (intro conjI)
qed

theorem validate_counts_valid_signatures_witness:
  "length (filter truthy_str [Some ''A:0xc1'', None]) < 2
   \<and> (\<exists>msg. fst (validateChannelUpdateSignatures toy_hash toy_recover channel_c1
                    [Some ''A:0xc1'', None] 2) = Inr (Some msg))
   \<and> recoveriesReturn toy_hash toy_recover channel_c1 [Some ''A:0xc1'', Some ''A:0xc1'']
   \<and> length (filter (slotValid toy_hash toy_recover channel_c1 [Some ''A:0xc1'', Some ''A:0xc1''])
              [0 ..< length [Some ''A:0xc1'', Some ''A:0xc1'']]) < 2
   \<and> (\<exists>msg. fst (validateChannelUpdateSignatures toy_hash toy_recover channel_c1
                    [Some ''A:0xc1'', Some ''A:0xc1''] 2) = Inr (Some msg))
   \<and> fst (validateChannelUpdateSignatures toy_hash toy_recover channel_c1
            [Some ''A:0xc1'', Some ''B:0xc1''] 2) = Inr None
   \<and> 2 \<le> length (filter (slotValid toy_hash toy_recover channel_c1
                             [Some ''A:0xc1'', Some ''B:0xc1''])
                     [0 ..< length [Some ''A:0xc1'', Some ''B:0xc1'']])"
proof -
  have d: "toy_hash (signingPreimage channel_c1) = ''0xc1''"
    by (simp add: toy_hash_def signingPreimage_def channel_c1_def rest_of_def)
  have two: "[0 ..< length [x, y]] = [0, Suc 0]" for x y :: "string option"
    by (simp add: upt_rec)
  have h1: "length (filter truthy_str [Some ''A:0xc1'', None]) < 2"
    by simp
  have p: "participants channel_c1 = [''0xaa'', ''0xbb'']"
    by (simp add: channel_c1_def)
  have h2: "recoveriesReturn toy_hash toy_recover channel_c1 [Some ''A:0xc1'', Some ''A:0xc1'']"
    by (simp add: recoveriesReturn_def d toy_recover_def)
  have h3: "length (filter (slotValid toy_hash toy_recover channel_c1
                             [Some ''A:0xc1'', Some ''A:0xc1''])
              [0 ..< length [Some ''A:0xc1'', Some ''A:0xc1'']]) < 2"
    by (simp add: two slotValid_def d p toy_recover_def)
  have h4: "fst (validateChannelUpdateSignatures toy_hash toy_recover channel_c1
            [Some ''A:0xc1'', Some ''B:0xc1''] 2) = Inr None"
    by (simp add: validate_unfold two d p verifySlot_def toy_recover_def)
  note t1 = validate_counts_valid_signatures
              [of "[Some ''A:0xc1'', None]" 2 toy_hash toy_recover channel_c1]
  note t2 = validate_counts_valid_signatures
              [of "[Some ''A:0xc1'', Some ''A:0xc1'']" 2 toy_hash toy_recover channel_c1]
  note t3 = validate_counts_valid_signatures
              [of "[Some ''A:0xc1'', Some ''B:0xc1'']" 2 toy_hash toy_recover channel_c1]
  from t1 h1 have c1: "\<exists>msg. fst (validateChannelUpdateSignatures toy_hash toy_recover channel_c1
                    [Some ''A:0xc1'', None] 2) = Inr (Some msg)"
    by blast
  from t2 h2 h3 have c2: "\<exists>msg. fst (validateChannelUpdateSignatures toy_hash toy_recover channel_c1
                    [Some ''A:0xc1'', Some ''A:0xc1''] 2) = Inr (Some msg)"
    by blast
  from t3 h4 have c3: "2 \<le> length (filter (slotValid toy_hash toy_recover channel_c1
                             [Some ''A:0xc1'', Some ''B:0xc1''])
                     [0 ..< length [Some ''A:0xc1'', Some ''B:0xc1'']])"
    by blast
  from h1 c1 h2 h3 c2 h4 c3 show ?thesis by (intro conjI)
qed

section \<open>Signing a commitment\<close>




text \<open>
  C6. Whatever signature arrays are passed with a state, every digest that
  \<open>generateSignedChannelCommitment\<close> signs and every digest that
  \<open>validateChannelUpdateSignatures\<close> verifies a signature against is the hash of the
  same commitment: chain id, state and adjudicator address with an empty
  \<open>signatures\<close> field. So the digests for any two signature arrays are equal.
\<close>

theorem digest_without_signatures:
  "(d \<in> set (snd (generateSignedChannelCommitment hashCC st sg sigs1))
      \<longrightarrow> d = hashCC (signingPreimage st))
   \<and> (d' \<in> fst ` set (snd (validateChannelUpdateSignatures hashCC recover st sigs2 req))
      \<longrightarrow> d' = hashCC (signingPreimage st))
   \<and> commit_signatures (signingPreimage st) = []
   \<and> (d \<in> set (snd (generateSignedChannelCommitment hashCC st sg sigs1))
      \<and> e \<in> set (snd (generateSignedChannelCommitment hashCC st sg sigs1'))
      \<and> d' \<in> fst ` set (snd (validateChannelUpdateSignatures hashCC recover st sigs2 req))
      \<and> e' \<in> fst ` set (snd (validateChannelUpdateSignatures hashCC recover st sigs2' req'))
      \<longrightarrow> d = e \<and> d' = e' \<and> d = d')"
proof -
  have g: "x = hashCC (signingPreimage st)"
    if "x \<in> set (snd (generateSignedChannelCommitment hashCC st sg ss))" for x ss
    using that
    by (auto simp: generateSignedChannelCommitment_def signingPreimage_def Let_def
             split: if_splits)
  have v: "x = hashCC (signingPreimage st)"
    if "x \<in> fst ` set (snd (validateChannelUpdateSignatures hashCC recover st ss r))" for x ss r
    using that
    by (auto simp: validateChannelUpdateSignatures_def recoverCalls_def signingPreimage_def
                   Let_def
             split: if_splits option.splits)
  have p: "commit_signatures (signingPreimage st) = []"
    by (simp add: signingPreimage_def)
  have c1: "d \<in> set (snd (generateSignedChannelCommitment hashCC st sg sigs1))
      \<longrightarrow> d = hashCC (signingPreimage st)"
    using g by blast
  have c2: "d' \<in> fst ` set (snd (validateChannelUpdateSignatures hashCC recover st sigs2 req))
      \<longrightarrow> d' = hashCC (signingPreimage st)"
    using v by blast
  have c3: "d \<in> set (snd (generateSignedChannelCommitment hashCC st sg sigs1))
      \<and> e \<in> set (snd (generateSignedChannelCommitment hashCC st sg sigs1'))
      \<and> d' \<in> fst ` set (snd (validateChannelUpdateSignatures hashCC recover st sigs2 req))
      \<and> e' \<in> fst ` set (snd (validateChannelUpdateSignatures hashCC recover st sigs2' req'))
      \<longrightarrow> d = e \<and> d' = e' \<and> d = d'"
  proof
    assume h: "d \<in> set (snd (generateSignedChannelCommitment hashCC st sg sigs1))
      \<and> e \<in> set (snd (generateSignedChannelCommitment hashCC st sg sigs1'))
      \<and> d' \<in> fst ` set (snd (validateChannelUpdateSignatures hashCC recover st sigs2 req))
      \<and> e' \<in> fst ` set (snd (validateChannelUpdateSignatures hashCC recover st sigs2' req'))"
    have "d = hashCC (signingPreimage st)" using h g by blast
    moreover have "e = hashCC (signingPreimage st)" using h g by blast
    moreover have "d' = hashCC (signingPreimage st)" using h v by blast
    moreover have "e' = hashCC (signingPreimage st)" using h v by blast
    ultimately show "d = e \<and> d' = e' \<and> d = d'" by simp
  qed
  from c1 c2 p c3 show ?thesis by (intro conjI)
qed

theorem digest_without_signatures_witness:
  "''0xc1'' \<in> set (snd (generateSignedChannelCommitment toy_hash channel_c1 alice_signer [None, None]))
   \<and> ''0xc1'' \<in> set (snd (generateSignedChannelCommitment toy_hash channel_c1 alice_signer
                            [None, Some ''B:0xc1'']))
   \<and> ''0xc1'' \<in> fst ` set (snd (validateChannelUpdateSignatures toy_hash toy_recover channel_c1
                                   [Some ''A:0xc1'', None] 1))
   \<and> ''0xc1'' \<in> fst ` set (snd (validateChannelUpdateSignatures toy_hash toy_recover channel_c1
                                   [Some ''A:0xc1'', Some ''B:0xc1''] 2))
   \<and> ''0xc1'' = toy_hash (signingPreimage channel_c1)"
proof -
  have a: "''0xc1'' \<in> set (snd (generateSignedChannelCommitment toy_hash channel_c1 alice_signer [None, None]))"
    by (simp add: generateSignedChannelCommitment_def toy_hash_def channel_c1_def rest_of_def Let_def)
  have b: "''0xc1'' \<in> set (snd (generateSignedChannelCommitment toy_hash channel_c1 alice_signer
                            [None, Some ''B:0xc1'']))"
    by (simp add: generateSignedChannelCommitment_def toy_hash_def channel_c1_def rest_of_def Let_def)
  have c: "''0xc1'' \<in> fst ` set (snd (validateChannelUpdateSignatures toy_hash toy_recover channel_c1
                                   [Some ''A:0xc1'', None] 1))"
    by (simp add: validateChannelUpdateSignatures_def recoverCalls_def toy_hash_def
          channel_c1_def rest_of_def Let_def)
  have d: "''0xc1'' \<in> fst ` set (snd (validateChannelUpdateSignatures toy_hash toy_recover channel_c1
                                   [Some ''A:0xc1'', Some ''B:0xc1''] 2))"
    by (simp add: validateChannelUpdateSignatures_def recoverCalls_def toy_hash_def
          channel_c1_def rest_of_def Let_def)
  from digest_without_signatures
         [of "''0xc1''" toy_hash channel_c1 alice_signer "[None, None]"
             "''0xc1''" toy_recover "[Some ''A:0xc1'', None]" 1] a
  have "''0xc1'' = toy_hash (signingPreimage channel_c1)" by blast
  with a b c d show ?thesis by blast
qed

section \<open>Running the transfer definition\<close>

text \<open>
  C7, at the input where the code departs from it. For a transfer whose id is
  \<open>0x1d\<close> and whose definition is \<open>0xdef\<close>, \<open>create\<close> without bytecode, and
  \<open>create\<close> after a failed local execution, call \<open>create\<close> on the contract at the
  transfer's id, not at its definition; \<open>resolve\<close>, after a failed local execution,
  calls \<open>resolve\<close> on the contract at the definition.
\<close>

theorem create_calls_transferId:
  "create toy_env hashlock_transfer None
     = (Inl (Error ''call exception''), [ContractCall ''0x1d'' ''create'' [''s'']])
   \<and> create toy_env hashlock_transfer (Some ''0x6080'')
     = (Inl (Error ''call exception''),
        [EvmExec ''0x6080'' ''create:s'', ContractCall ''0x1d'' ''create'' [''s'']])
   \<and> transferId hashlock_transfer = ''0x1d''
   \<and> transferDefinition hashlock_transfer = ''0xdef''
   \<and> resolve toy_env hashlock_transfer (Some ''0x6080'')
     = (Inr \<lparr>rb_to = [''0xaa'', ''0xbb''], rb_amount = [AsString ''0'', AsString ''40'']\<rparr>,
        [EvmExec ''0x6080'' ''resolve:sr'', ContractCall ''0xdef'' ''resolve'' [''s'', ''r'']])"
  by (simp add: create_def resolve_def create_local_def resolve_local_def execEvmBytecode_def
        toy_env_def hashlock_transfer_def index_opt_def Let_def
        BigNumber_toString_def string_of_nat.simps digit_char_def)

end
